theory Spec2Isabelle
  imports Main
begin

section \<open>Python strings\<close>

text \<open>
  A Python \<open>str\<close> is modelled as a \<open>string\<close>, one \<open>char\<close> per code point, for the code
  points 0 to 255. In that range \<open>str.isspace\<close> holds for tab, line feed, vertical tab,
  form feed, carriage return, the separators 0x1C to 0x1F, space, 0x85 and 0xA0.
\<close>

definition isspace :: "char \<Rightarrow> bool" where
  "isspace c =
     (let n = (of_char c :: nat)
      in (9 \<le> n \<and> n \<le> 13) \<or> (28 \<le> n \<and> n \<le> 32) \<or> n = 133 \<or> n = 160)"

text \<open>\<open>s.strip()\<close>: leading and trailing whitespace removed.\<close>

definition str_strip :: "string \<Rightarrow> string" where
  "str_strip s = rev (dropWhile isspace (rev (dropWhile isspace s)))"

text \<open>
  \<open>s.split()\<close>: the maximal runs of non-whitespace characters, in order. The first
  argument of \<open>split_from\<close> is the token being read.
\<close>

fun split_from :: "string \<Rightarrow> string \<Rightarrow> string list" where
  "split_from cur [] = (if cur = [] then [] else [cur])"
| "split_from cur (c # cs) =
     (if isspace c then (if cur = [] then split_from [] cs else cur # split_from [] cs)
      else split_from (cur @ [c]) cs)"

definition str_split :: "string \<Rightarrow> string list" where
  "str_split s = split_from [] s"

text \<open>\<open>s.startswith(p)\<close>.\<close>

definition startswith :: "string \<Rightarrow> string \<Rightarrow> bool" where
  "startswith s p = (take (length p) s = p)"

text \<open>\<open>sep.join(xs)\<close>.\<close>

fun join :: "string \<Rightarrow> string list \<Rightarrow> string" where
  "join sep [] = []"
| "join sep [x] = x"
| "join sep (x # y # ys) = x @ sep @ join sep (y # ys)"

text \<open>The apostrophe, and a value placed between apostrophes as the f-strings do.\<close>

definition sq :: string where
  "sq = [CHR 0x27]"

definition quoted :: "string \<Rightarrow> string" where
  "quoted s = sq @ s @ sq"

section \<open>Exceptions and values\<close>

datatype py_exception =
    FileNotFoundError
  | OtherOSError
  | JSONDecodeError
  | ValueError string
  | TypeError string

text \<open>\<open>str(e)\<close> for the exceptions that carry a message.\<close>

fun str_of_exception :: "py_exception \<Rightarrow> string" where
  "str_of_exception (ValueError msg) = msg"
| "str_of_exception (TypeError msg) = msg"
| "str_of_exception _ = []"

text \<open>What \<open>json.load\<close> can return.\<close>

datatype json =
    JNull
  | JBool bool
  | JInt int
  | JFloat string
  | JString string
  | JArray "json list"
  | JObject "(string \<times> json) list"

text \<open>
  What \<open>convert_unix_to_powershell\<close> can return: a pair of strings, or \<open>None\<close> when
  control reaches the end of the function body without a \<open>return\<close>.
\<close>

datatype py_value = PyNone | PyTuple string string

section \<open>The mapping table\<close>

text \<open>The dictionary literal of \<open>load_command_mappings\<close>.\<close>

definition fallback_mappings :: "(string \<times> string) list" where
  "fallback_mappings =
    [(''ls'', ''Get-ChildItem''),
     (''pwd'', ''Get-Location''),
     (''cd'', ''Set-Location''),
     (''mkdir'', ''New-Item -ItemType Directory''),
     (''rmdir'', ''Remove-Item -Recurse''),
     (''rm'', ''Remove-Item''),
     (''cp'', ''Copy-Item''),
     (''mv'', ''Move-Item''),
     (''cat'', ''Get-Content''),
     (''grep'', ''Select-String''),
     (''find'', ''Get-ChildItem -Recurse''),
     (''ps'', ''Get-Process''),
     (''kill'', ''Stop-Process''),
     (''chmod'', ''Set-ItemProperty''),
     (''which'', ''Get-Command''),
     (''echo'', ''Write-Output''),
     (''env'', ''Get-ChildItem Env:''),
     (''history'', ''Get-History''),
     (''clear'', ''Clear-Host''),
     (''head'', ''Get-Content | Select-Object -First''),
     (''tail'', ''Get-Content | Select-Object -Last''),
     (''wc'', ''Measure-Object''),
     (''sort'', ''Sort-Object''),
     (''uniq'', ''Get-Unique''),
     (''df'', ''Get-WmiObject -Class Win32_LogicalDisk''),
     (''du'', ''Get-ChildItem | Measure-Object -Property Length -Sum''),
     (''mount'', ''Get-WmiObject -Class Win32_Volume''),
     (''wget'', ''Invoke-WebRequest''),
     (''curl'', ''Invoke-RestMethod''),
     (''tar'', ''Expand-Archive / Compress-Archive''),
     (''ssh'', ''Enter-PSSession''),
     (''scp'', ''Copy-Item -ToSession / Copy-Item -FromSession'')]"

definition fallback_json :: json where
  "fallback_json = JObject (map (\<lambda>(k, v). (k, JString v)) fallback_mappings)"

text \<open>
  \<open>load_command_mappings\<close>. Its argument is the outcome of the body of the \<open>try\<close>
  (opening \<open>command_mappings.json\<close> and \<open>json.load\<close>): the value read, or the exception
  raised. The only handler is \<open>except FileNotFoundError\<close>; every other exception
  leaves the function.
\<close>

definition load_command_mappings :: "py_exception + json \<Rightarrow> py_exception + json" where
  "load_command_mappings body =
     (case body of
        Inr v \<Rightarrow> Inr v
      | Inl FileNotFoundError \<Rightarrow> Inr fallback_json
      | Inl e \<Rightarrow> Inl e)"

text \<open>A JSON object all of whose values are strings.\<close>

fun is_str_mapping :: "json \<Rightarrow> bool" where
  "is_str_mapping (JObject kvs) = list_all (\<lambda>(k, v). case v of JString _ \<Rightarrow> True | _ \<Rightarrow> False) kvs"
| "is_str_mapping _ = False"

text \<open>
  The module-level \<open>command_mappings\<close> when the fallback was taken, as a dictionary.
\<close>

definition default_mappings :: "string \<rightharpoonup> string" where
  "default_mappings = map_of fallback_mappings"

section \<open>The translation engine\<close>

text \<open>\<open>xs.index(x)\<close>: the first position of \<open>x\<close>, \<open>ValueError\<close> when there is none.\<close>

fun list_index :: "string list \<Rightarrow> string \<Rightarrow> nat option" where
  "list_index [] x = None"
| "list_index (y # ys) x =
     (if y = x then Some 0 else map_option Suc (list_index ys x))"

text \<open>
  \<open>convert_unix_to_powershell\<close>, with the module-level \<open>command_mappings\<close> as the first
  argument. In the \<open>find\<close> branch, when \<open>-name\<close> is among the arguments and is the last
  of them, no \<open>return\<close> is reached and the function returns \<open>None\<close>.
\<close>

definition convert_unix_to_powershell ::
  "(string \<rightharpoonup> string) \<Rightarrow> string \<Rightarrow> py_exception + py_value" where
  "convert_unix_to_powershell command_mappings unix_cmd0 =
    (let unix_cmd = str_strip unix_cmd0;
         parts = str_split unix_cmd;
         base_command = (if parts \<noteq> [] then parts ! 0 else []);
         args = (if length parts > 1 then drop 1 parts else [])
     in case command_mappings base_command of
       Some ps_base \<Rightarrow>
        (if base_command = ''ls'' then
           (if ''-la'' \<in> set args \<or> ''-l'' \<in> set args then
              Inr (PyTuple ''Get-ChildItem | Format-List'' ''Lists files with detailed information'')
            else if ''-a'' \<in> set args then
              Inr (PyTuple ''Get-ChildItem -Force'' ''Lists all files including hidden ones'')
            else
              Inr (PyTuple ps_base ''Lists files and directories''))
         else if base_command = ''grep'' then
           (if length args \<ge> 1 then
              (let pattern = args ! 0 in
               if length args \<ge> 2 then
                 (let file = args ! 1 in
                  Inr (PyTuple
                    (''Select-String -Pattern '' @ quoted pattern @ '' -Path '' @ quoted file)
                    (''Searches for pattern '' @ quoted pattern @ '' in file '' @ quoted file)))
               else
                 Inr (PyTuple
                   (''Select-String -Pattern '' @ quoted pattern)
                   (''Searches for pattern '' @ quoted pattern @ '' in input'')))
            else
              Inr (PyTuple ps_base ''Searches for patterns in text''))
         else if base_command = ''find'' then
           (if length args \<ge> 1 then
              (if ''-name'' \<in> set args then
                 (case list_index args ''-name'' of
                    None \<Rightarrow> Inl (ValueError (quoted ''-name'' @ '' is not in list''))
                  | Some name_idx \<Rightarrow>
                     (if name_idx + 1 < length args then
                        (let pattern = args ! (name_idx + 1) in
                         Inr (PyTuple
                           (''Get-ChildItem -Recurse -Name '' @ sq @ ''*'' @ pattern @ ''*'' @ sq)
                           (''Finds files matching pattern '' @ quoted pattern)))
                      else Inr PyNone))
               else
                 (let path = args ! 0 in
                  Inr (PyTuple
                    (''Get-ChildItem -Path '' @ quoted path @ '' -Recurse'')
                    (''Lists all files in directory '' @ quoted path @ '' recursively''))))
            else
              Inr (PyTuple ps_base ''Finds files and directories''))
         else if base_command = ''head'' then
           (if length args \<ge> 1 \<and> startswith (args ! 0) ''-'' then
              (let lines = drop 1 (args ! 0) in
               if length args \<ge> 2 then
                 (let file = args ! 1 in
                  Inr (PyTuple
                    (''Get-Content '' @ quoted file @ '' | Select-Object -First '' @ lines)
                    (''Shows first '' @ lines @ '' lines of file '' @ quoted file)))
               else
                 Inr (PyTuple
                   (''Select-Object -First '' @ lines)
                   (''Shows first '' @ lines @ '' lines'')))
            else
              Inr (PyTuple ''Get-Content | Select-Object -First 10''
                           ''Shows first 10 lines (default)''))
         else if base_command = ''tail'' then
           (if length args \<ge> 1 \<and> startswith (args ! 0) ''-'' then
              (let lines = drop 1 (args ! 0) in
               if length args \<ge> 2 then
                 (let file = args ! 1 in
                  Inr (PyTuple
                    (''Get-Content '' @ quoted file @ '' | Select-Object -Last '' @ lines)
                    (''Shows last '' @ lines @ '' lines of file '' @ quoted file)))
               else
                 Inr (PyTuple
                   (''Select-Object -Last '' @ lines)
                   (''Shows last '' @ lines @ '' lines'')))
            else
              Inr (PyTuple ''Get-Content | Select-Object -Last 10''
                           ''Shows last 10 lines (default)''))
         else if base_command = ''kill'' then
           (if length args \<ge> 1 then
              (let pid = args ! 0 in
               Inr (PyTuple
                 (''Stop-Process -Id '' @ pid)
                 (''Terminates process with ID '' @ pid)))
            else
              Inr (PyTuple ps_base ''Terminates processes''))
         else if base_command \<in> set [''cd'', ''mkdir'', ''rmdir'', ''rm'', ''cp'', ''mv'', ''cat''] then
           (if length args \<ge> 1 then
              (let target = join '' '' args in
               Inr (PyTuple
                 (ps_base @ '' '' @ quoted target)
                 (''Performs '' @ base_command @ '' operation on '' @ quoted target)))
            else
              Inr (PyTuple ps_base (''PowerShell equivalent of '' @ base_command)))
         else
           (if args \<noteq> [] then
              Inr (PyTuple
                (ps_base @ '' '' @ join '' '' args)
                (''PowerShell equivalent of '' @ base_command @ '' with arguments''))
            else
              Inr (PyTuple ps_base (''PowerShell equivalent of '' @ base_command))))
     | None \<Rightarrow>
        Inr (PyTuple
          (''# No direct mapping found for '' @ quoted base_command)
          (''Command '' @ quoted base_command
             @ '' doesn'' @ sq @ ''t have a direct PowerShell equivalent in our database'')))"

section \<open>The conversion endpoint\<close>

record UnixCommand =
  command :: string
  include_explanation :: "bool option"

record PowerShellResponse =
  unix_command :: string
  powershell_command :: string
  explanation :: "string option"
  status :: string

record HTTPException =
  status_code :: nat
  detail :: string

text \<open>
  \<open>convert_command\<close>. A blank command is refused with status 400 before the \<open>try\<close>.
  Inside the \<open>try\<close>, unpacking \<open>None\<close> into two names raises \<open>TypeError\<close>; every
  exception there becomes status 500.
\<close>

definition convert_command ::
  "(string \<rightharpoonup> string) \<Rightarrow> UnixCommand \<Rightarrow> HTTPException + PowerShellResponse" where
  "convert_command command_mappings request =
    (if str_strip (command request) = [] then
       Inl \<lparr>status_code = 400, detail = ''Command cannot be empty''\<rparr>
     else
       (case (case convert_unix_to_powershell command_mappings (command request) of
                Inl e \<Rightarrow> Inl e
              | Inr PyNone \<Rightarrow> Inl (TypeError ''cannot unpack non-iterable NoneType object'')
              | Inr (PyTuple ps_command expl) \<Rightarrow>
                  Inr \<lparr>unix_command = command request,
                       powershell_command = ps_command,
                       explanation =
                         (if include_explanation request = Some True then Some expl else None),
                       status = ''success''\<rparr>) of
          Inr response \<Rightarrow> Inr response
        | Inl e \<Rightarrow>
            Inl \<lparr>status_code = 500,
                 detail = ''Error converting command: '' @ str_of_exception e\<rparr>))"

text \<open>
  The base command of a line, as lines 72 to 76 of the source compute it: the first token
  of the stripped line, or the empty string when there is none.
\<close>

definition base_command_of :: "string \<Rightarrow> string" where
  "base_command_of unix_cmd0 =
    (let unix_cmd = str_strip unix_cmd0;
         parts = str_split unix_cmd
     in if parts \<noteq> [] then parts ! 0 else [])"

section \<open>The \<open>head\<close> and \<open>tail\<close> rule in the words of the specification\<close>

text \<open>
  The PowerShell command that the specification gives for \<open>head\<close> and \<open>tail\<close>: a first
  argument that begins with \<open>-\<close> gives the count; with a second argument the file is read,
  without one only the selection is emitted; otherwise the default of 10 lines.
\<close>

definition spec_head_tail :: "string \<Rightarrow> string list \<Rightarrow> string" where
  "spec_head_tail base args =
    (let sel = (if base = ''head'' then ''-First'' else ''-Last'') in
     case args of
       (c # count) # rest \<Rightarrow>
         (if c = CHR ''-'' then
            (case rest of
               file # _ \<Rightarrow>
                 ''Get-Content '' @ quoted file @ '' | Select-Object '' @ sel @ '' '' @ count
             | [] \<Rightarrow> ''Select-Object '' @ sel @ '' '' @ count)
          else ''Get-Content | Select-Object '' @ sel @ '' 10'')
     | _ \<Rightarrow> ''Get-Content | Select-Object '' @ sel @ '' 10'')"

section \<open>Tokenising\<close>

lemma dropWhile_all_space: "\<forall>c \<in> set s. isspace c \<Longrightarrow> dropWhile isspace s = []"
  by (induction s) simp_all

lemma strip_blank: "\<forall>c \<in> set s. isspace c \<Longrightarrow> str_strip s = []"
  by (simp add: str_strip_def dropWhile_all_space)

section \<open>Loading the table\<close>

text \<open>
  C2, as the code has it: when the mapping source is missing, \<open>load_command_mappings\<close>
  returns the built-in table, a mapping from strings to strings with 32 entries, and no
  exception; an exception surfaces exactly when the body raised one other than
  \<open>FileNotFoundError\<close>.
\<close>

theorem load_missing_falls_back:
  "load_command_mappings (Inl FileNotFoundError) = Inr fallback_json
   \<and> is_str_mapping fallback_json
   \<and> length fallback_mappings = 32
   \<and> distinct (map fst fallback_mappings)
   \<and> (load_command_mappings body = Inl e \<longleftrightarrow> body = Inl e \<and> e \<noteq> FileNotFoundError)"
proof -
  have a: "load_command_mappings (Inl FileNotFoundError) = Inr fallback_json"
    by (simp add: load_command_mappings_def)
  have b: "is_str_mapping fallback_json"
    by (simp add: fallback_json_def fallback_mappings_def)
  have c: "length fallback_mappings = 32"
    by (simp add: fallback_mappings_def)
  have d: "distinct (map fst fallback_mappings)"
    by (simp add: fallback_mappings_def)
  have e: "load_command_mappings body = Inl e \<longleftrightarrow> body = Inl e \<and> e \<noteq> FileNotFoundError"
    by (auto simp: load_command_mappings_def split: sum.splits py_exception.splits)
  from a b c d e show ?thesis by blast
qed

text \<open>
  C2 as stated fails: a source that exists but does not parse makes \<open>json.load\<close> raise
  \<open>JSONDecodeError\<close>, which \<open>load_command_mappings\<close> does not catch, so the loader
  raises instead of returning the built-in table.
\<close>

theorem load_unparsable_raises:
  "load_command_mappings (Inl JSONDecodeError) = Inl JSONDecodeError
   \<and> load_command_mappings (Inl JSONDecodeError) \<noteq> Inr fallback_json"
  by (simp add: load_command_mappings_def)

section \<open>The \<open>find\<close> rule\<close>

text \<open>
  C1: the line \<open>find -name\<close>. The claim expects a pair of strings. In the code the test
  \<open>name_idx + 1 < len(args)\<close> fails, that \<open>if\<close> has no \<open>else\<close>, and the function
  returns \<open>None\<close>; the endpoint then answers with status 500.
\<close>

theorem find_name_last_returns_none:
  "convert_unix_to_powershell default_mappings ''find -name'' = Inr PyNone
   \<and> convert_command default_mappings
        \<lparr>command = ''find -name'', include_explanation = None\<rparr>
      = Inl \<lparr>status_code = 500,
             detail = ''Error converting command: cannot unpack non-iterable NoneType object''\<rparr>"
  by code_simp

section \<open>The branches of the dispatcher\<close>

text \<open>
  Each lemma below gives the result of \<open>convert_unix_to_powershell\<close> on a line whose
  tokens are known, for one branch of the \<open>if\<close>/\<open>elif\<close> chain.
\<close>

lemma if_nonempty_id: "(if xs \<noteq> [] then xs else []) = xs"
  by simp

lemma unmapped_branch:
  assumes "str_split (str_strip line) = base # args"
    and "command_mappings base = None"
  shows "convert_unix_to_powershell command_mappings line =
     Inr (PyTuple
       (''# No direct mapping found for '' @ quoted base)
       (''Command '' @ quoted base
          @ '' doesn'' @ sq @ ''t have a direct PowerShell equivalent in our database''))"
  using assms
  by (simp add: convert_unix_to_powershell_def Let_def if_nonempty_id)

lemma blank_branch:
  assumes "str_split (str_strip line) = []"
    and "command_mappings [] = None"
  shows "convert_unix_to_powershell command_mappings line =
     Inr (PyTuple
       (''# No direct mapping found for '' @ quoted [])
       (''Command '' @ quoted []
          @ '' doesn'' @ sq @ ''t have a direct PowerShell equivalent in our database''))"
  using assms
  by (simp add: convert_unix_to_powershell_def Let_def)

lemma ls_branch:
  assumes "str_split (str_strip line) = ''ls'' # args"
    and "command_mappings ''ls'' = Some ps_base"
  shows "convert_unix_to_powershell command_mappings line =
     (if ''-la'' \<in> set args \<or> ''-l'' \<in> set args then
        Inr (PyTuple ''Get-ChildItem | Format-List'' ''Lists files with detailed information'')
      else if ''-a'' \<in> set args then
        Inr (PyTuple ''Get-ChildItem -Force'' ''Lists all files including hidden ones'')
      else Inr (PyTuple ps_base ''Lists files and directories''))"
  using assms
  by (simp add: convert_unix_to_powershell_def Let_def if_nonempty_id)

lemma grep_branch:
  assumes "str_split (str_strip line) = ''grep'' # args"
    and "command_mappings ''grep'' = Some ps_base"
  shows "convert_unix_to_powershell command_mappings line =
     (if length args \<ge> 1 then
        (if length args \<ge> 2 then
           Inr (PyTuple
             (''Select-String -Pattern '' @ quoted (args ! 0) @ '' -Path '' @ quoted (args ! 1))
             (''Searches for pattern '' @ quoted (args ! 0) @ '' in file '' @ quoted (args ! 1)))
         else
           Inr (PyTuple
             (''Select-String -Pattern '' @ quoted (args ! 0))
             (''Searches for pattern '' @ quoted (args ! 0) @ '' in input'')))
      else Inr (PyTuple ps_base ''Searches for patterns in text''))"
  using assms
  by (simp add: convert_unix_to_powershell_def Let_def if_nonempty_id)

lemma find_branch:
  assumes "str_split (str_strip line) = ''find'' # args"
    and "command_mappings ''find'' = Some ps_base"
  shows "convert_unix_to_powershell command_mappings line =
     (if length args \<ge> 1 then
        (if ''-name'' \<in> set args then
           (case list_index args ''-name'' of
              None \<Rightarrow> Inl (ValueError (quoted ''-name'' @ '' is not in list''))
            | Some name_idx \<Rightarrow>
               (if name_idx + 1 < length args then
                  Inr (PyTuple
                    (''Get-ChildItem -Recurse -Name '' @ sq @ ''*'' @ args ! (name_idx + 1)
                       @ ''*'' @ sq)
                    (''Finds files matching pattern '' @ quoted (args ! (name_idx + 1))))
                else Inr PyNone))
         else
           Inr (PyTuple
             (''Get-ChildItem -Path '' @ quoted (args ! 0) @ '' -Recurse'')
             (''Lists all files in directory '' @ quoted (args ! 0) @ '' recursively'')))
      else Inr (PyTuple ps_base ''Finds files and directories''))"
  using assms
  by (simp add: convert_unix_to_powershell_def Let_def if_nonempty_id split: option.splits)

lemma head_branch:
  assumes "str_split (str_strip line) = ''head'' # args"
    and "command_mappings ''head'' = Some ps_base"
  shows "convert_unix_to_powershell command_mappings line =
     (if length args \<ge> 1 \<and> startswith (args ! 0) ''-'' then
        (if length args \<ge> 2 then
           Inr (PyTuple
             (''Get-Content '' @ quoted (args ! 1) @ '' | Select-Object -First ''
                @ drop 1 (args ! 0))
             (''Shows first '' @ drop 1 (args ! 0) @ '' lines of file '' @ quoted (args ! 1)))
         else
           Inr (PyTuple
             (''Select-Object -First '' @ drop 1 (args ! 0))
             (''Shows first '' @ drop 1 (args ! 0) @ '' lines'')))
      else
        Inr (PyTuple ''Get-Content | Select-Object -First 10''
                     ''Shows first 10 lines (default)''))"
  using assms
  by (simp add: convert_unix_to_powershell_def Let_def if_nonempty_id)

lemma tail_branch:
  assumes "str_split (str_strip line) = ''tail'' # args"
    and "command_mappings ''tail'' = Some ps_base"
  shows "convert_unix_to_powershell command_mappings line =
     (if length args \<ge> 1 \<and> startswith (args ! 0) ''-'' then
        (if length args \<ge> 2 then
           Inr (PyTuple
             (''Get-Content '' @ quoted (args ! 1) @ '' | Select-Object -Last ''
                @ drop 1 (args ! 0))
             (''Shows last '' @ drop 1 (args ! 0) @ '' lines of file '' @ quoted (args ! 1)))
         else
           Inr (PyTuple
             (''Select-Object -Last '' @ drop 1 (args ! 0))
             (''Shows last '' @ drop 1 (args ! 0) @ '' lines'')))
      else
        Inr (PyTuple ''Get-Content | Select-Object -Last 10''
                     ''Shows last 10 lines (default)''))"
  using assms
  by (simp add: convert_unix_to_powershell_def Let_def if_nonempty_id)

lemma kill_branch:
  assumes "str_split (str_strip line) = ''kill'' # args"
    and "command_mappings ''kill'' = Some ps_base"
  shows "convert_unix_to_powershell command_mappings line =
     (if length args \<ge> 1 then
        Inr (PyTuple (''Stop-Process -Id '' @ args ! 0)
                     (''Terminates process with ID '' @ args ! 0))
      else Inr (PyTuple ps_base ''Terminates processes''))"
  using assms
  by (simp add: convert_unix_to_powershell_def Let_def if_nonempty_id)

lemma target_branch:
  assumes "str_split (str_strip line) = base # args"
    and "base \<in> set [''cd'', ''mkdir'', ''rmdir'', ''rm'', ''cp'', ''mv'', ''cat'']"
    and "command_mappings base = Some ps_base"
  shows "convert_unix_to_powershell command_mappings line =
     (if length args \<ge> 1 then
        Inr (PyTuple
          (ps_base @ '' '' @ quoted (join '' '' args))
          (''Performs '' @ base @ '' operation on '' @ quoted (join '' '' args)))
      else Inr (PyTuple ps_base (''PowerShell equivalent of '' @ base)))"
proof -
  from assms(2) consider "base = ''cd''" | "base = ''mkdir''" | "base = ''rmdir''"
    | "base = ''rm''" | "base = ''cp''" | "base = ''mv''" | "base = ''cat''"
    by auto
  then show ?thesis
    using assms(1,3)
    by cases (simp_all add: convert_unix_to_powershell_def Let_def if_nonempty_id)
qed

lemma default_branch:
  assumes "str_split (str_strip line) = base # args"
    and "base \<notin> set [''ls'', ''grep'', ''find'', ''head'', ''tail'', ''kill'']"
    and "base \<notin> set [''cd'', ''mkdir'', ''rmdir'', ''rm'', ''cp'', ''mv'', ''cat'']"
    and "command_mappings base = Some ps_base"
  shows "convert_unix_to_powershell command_mappings line =
     (if args \<noteq> [] then
        Inr (PyTuple
          (ps_base @ '' '' @ join '' '' args)
          (''PowerShell equivalent of '' @ base @ '' with arguments''))
      else Inr (PyTuple ps_base (''PowerShell equivalent of '' @ base)))"
  using assms
  by (simp add: convert_unix_to_powershell_def Let_def if_nonempty_id)

section \<open>The \<open>ls\<close> rule\<close>

text \<open>
  C6: for \<open>ls\<close>, arguments containing \<open>-la\<close> or \<open>-l\<close> give
  \<open>Get-ChildItem | Format-List\<close>; otherwise arguments containing \<open>-a\<close> give
  \<open>Get-ChildItem -Force\<close>; otherwise the template is returned unmodified. The first test
  has precedence: with \<open>-la\<close> or \<open>-l\<close> present the result is never the \<open>-Force\<close> form.
\<close>

theorem ls_rule:
  assumes "str_split (str_strip line) = ''ls'' # args"
    and "command_mappings ''ls'' = Some ps_base"
  shows "convert_unix_to_powershell command_mappings line =
           (if ''-la'' \<in> set args \<or> ''-l'' \<in> set args then
              Inr (PyTuple ''Get-ChildItem | Format-List''
                           ''Lists files with detailed information'')
            else if ''-a'' \<in> set args then
              Inr (PyTuple ''Get-ChildItem -Force'' ''Lists all files including hidden ones'')
            else Inr (PyTuple ps_base ''Lists files and directories''))
         \<and> (''-la'' \<in> set args \<or> ''-l'' \<in> set args \<longrightarrow>
              (\<forall>expl. convert_unix_to_powershell command_mappings line
                        \<noteq> Inr (PyTuple ''Get-ChildItem -Force'' expl)))"
  using assms by (simp add: ls_branch)

theorem ls_rule_witness:
  "str_split (str_strip ''ls -a -la'') = ''ls'' # [''-a'', ''-la'']
   \<and> default_mappings ''ls'' = Some ''Get-ChildItem''
   \<and> ''-la'' \<in> set [''-a'', ''-la'']
   \<and> convert_unix_to_powershell default_mappings ''ls -a -la''
       = Inr (PyTuple ''Get-ChildItem | Format-List'' ''Lists files with detailed information'')
   \<and> (\<forall>expl. convert_unix_to_powershell default_mappings ''ls -a -la''
                \<noteq> Inr (PyTuple ''Get-ChildItem -Force'' expl))"
proof -
  have t: "str_split (str_strip ''ls -a -la'') = ''ls'' # [''-a'', ''-la'']"
    by code_simp
  have m: "default_mappings ''ls'' = Some ''Get-ChildItem''"
    by code_simp
  show ?thesis
    using t m
      ls_rule [where line = "''ls -a -la''" and args = "[''-a'', ''-la'']"
          and command_mappings = default_mappings and ps_base = "''Get-ChildItem''"]
    by simp
qed

section \<open>The \<open>head\<close> and \<open>tail\<close> rule\<close>

lemma startswith_dash: "startswith s ''-'' \<longleftrightarrow> (\<exists>r. s = CHR ''-'' # r)"
  by (cases s) (auto simp: startswith_def)

text \<open>
  C3: for \<open>head\<close> and \<open>tail\<close> the PowerShell command is the one the specification
  describes: count taken from a first argument that begins with \<open>-\<close>, file from the second
  argument when there is one, and the default of 10 lines otherwise; \<open>head\<close> selects
  \<open>-First\<close> and \<open>tail\<close> selects \<open>-Last\<close>.
\<close>

theorem head_tail_rule:
  assumes "str_split (str_strip line) = base # args"
    and "base = ''head'' \<or> base = ''tail''"
    and "command_mappings base = Some ps_base"
  shows "\<exists>expl. convert_unix_to_powershell command_mappings line
           = Inr (PyTuple (spec_head_tail base args) expl)"
proof -
  from assms(2) show ?thesis
  proof
    assume b: "base = ''head''"
    with assms show ?thesis
      by (simp add: head_branch spec_head_tail_def startswith_dash Let_def
            split: list.splits)
  next
    assume b: "base = ''tail''"
    with assms show ?thesis
      by (simp add: tail_branch spec_head_tail_def startswith_dash Let_def
            split: list.splits)
  qed
qed

theorem head_tail_rule_witness:
  "str_split (str_strip ''tail file.txt'') = ''tail'' # [''file.txt'']
   \<and> default_mappings ''tail'' = Some ''Get-Content | Select-Object -Last''
   \<and> (\<exists>expl. convert_unix_to_powershell default_mappings ''tail file.txt''
         = Inr (PyTuple ''Get-Content | Select-Object -Last 10'' expl))"
proof -
  have t: "str_split (str_strip ''tail file.txt'') = ''tail'' # [''file.txt'']"
    by code_simp
  have m: "default_mappings ''tail'' = Some ''Get-Content | Select-Object -Last''"
    by code_simp
  have "\<exists>expl. convert_unix_to_powershell default_mappings ''tail file.txt''
         = Inr (PyTuple (spec_head_tail ''tail'' [''file.txt'']) expl)"
    using t m
      head_tail_rule [where line = "''tail file.txt''" and base = "''tail''"
          and args = "[''file.txt'']" and command_mappings = default_mappings]
    by simp
  moreover have "spec_head_tail ''tail'' [''file.txt''] = ''Get-Content | Select-Object -Last 10''"
    by (simp add: spec_head_tail_def)
  ultimately show ?thesis
    using t m by simp
qed

text \<open>
  C10: the count of \<open>head\<close> and \<open>tail\<close> is whatever follows the dash of the first
  argument, inserted as it is; nothing checks that it is a number. So \<open>head -n 5\<close> takes
  \<open>n\<close> as the count and \<open>5\<close> as the file.
\<close>

theorem head_tail_count_verbatim:
  assumes "str_split (str_strip line) = base # (CHR ''-'' # count) # rest"
    and "base = ''head'' \<or> base = ''tail''"
    and "command_mappings base = Some ps_base"
  shows "\<exists>expl. convert_unix_to_powershell command_mappings line =
           Inr (PyTuple
             ((case rest of
                 [] \<Rightarrow> ''Select-Object ''
               | file # _ \<Rightarrow> ''Get-Content '' @ quoted file @ '' | Select-Object '')
              @ (if base = ''head'' then ''-First '' else ''-Last '') @ count)
             expl)"
proof -
  from assms(2) show ?thesis
  proof
    assume b: "base = ''head''"
    with assms show ?thesis
      by (simp add: head_branch startswith_dash split: list.splits)
  next
    assume b: "base = ''tail''"
    with assms show ?thesis
      by (simp add: tail_branch startswith_dash split: list.splits)
  qed
qed

theorem head_tail_count_verbatim_witness:
  "str_split (str_strip ''head -n 5'') = ''head'' # (CHR ''-'' # ''n'') # [''5'']
   \<and> default_mappings ''head'' = Some ''Get-Content | Select-Object -First''
   \<and> (\<exists>expl. convert_unix_to_powershell default_mappings ''head -n 5''
         = Inr (PyTuple (''Get-Content '' @ quoted ''5'' @ '' | Select-Object -First n'') expl))"
proof -
  have t: "str_split (str_strip ''head -n 5'') = ''head'' # (CHR ''-'' # ''n'') # [''5'']"
    by code_simp
  have m: "default_mappings ''head'' = Some ''Get-Content | Select-Object -First''"
    by code_simp
  show ?thesis
    using t m
      head_tail_count_verbatim [where line = "''head -n 5''" and base = "''head''"
          and count = "''n''" and rest = "[''5'']" and command_mappings = default_mappings]
    by simp
qed

section \<open>The rule for \<open>cd\<close>, \<open>mkdir\<close>, \<open>rmdir\<close>, \<open>rm\<close>, \<open>cp\<close>, \<open>mv\<close> and \<open>cat\<close>\<close>

text \<open>
  C7: for each of these base commands, one or more arguments are joined with a single
  space into one target and the result is the template followed by the target between
  apostrophes; with no argument the bare template is returned.
\<close>

theorem target_rule:
  assumes "str_split (str_strip line) = base # args"
    and "base \<in> set [''cd'', ''mkdir'', ''rmdir'', ''rm'', ''cp'', ''mv'', ''cat'']"
    and "command_mappings base = Some ps_base"
  shows "convert_unix_to_powershell command_mappings line =
     (if args \<noteq> [] then
        Inr (PyTuple
          (ps_base @ '' '' @ sq @ join '' '' args @ sq)
          (''Performs '' @ base @ '' operation on '' @ sq @ join '' '' args @ sq))
      else Inr (PyTuple ps_base (''PowerShell equivalent of '' @ base)))"
  using target_branch [where line = line and base = base and args = args
      and command_mappings = command_mappings and ps_base = ps_base] assms
  by (cases args) (simp_all add: quoted_def)

theorem target_rule_witness:
  "str_split (str_strip ''rm myfile.txt'') = ''rm'' # [''myfile.txt'']
   \<and> ''rm'' \<in> set [''cd'', ''mkdir'', ''rmdir'', ''rm'', ''cp'', ''mv'', ''cat'']
   \<and> default_mappings ''rm'' = Some ''Remove-Item''
   \<and> [''myfile.txt''] \<noteq> []
   \<and> convert_unix_to_powershell default_mappings ''rm myfile.txt''
       = Inr (PyTuple (''Remove-Item '' @ sq @ ''myfile.txt'' @ sq)
                      (''Performs rm operation on '' @ sq @ ''myfile.txt'' @ sq))
   \<and> str_split (str_strip ''cp a b'') = ''cp'' # [''a'', ''b'']
   \<and> default_mappings ''cp'' = Some ''Copy-Item''
   \<and> convert_unix_to_powershell default_mappings ''cp a b''
       = Inr (PyTuple (''Copy-Item '' @ sq @ ''a b'' @ sq)
                      (''Performs cp operation on '' @ sq @ ''a b'' @ sq))"
proof -
  have t1: "str_split (str_strip ''rm myfile.txt'') = ''rm'' # [''myfile.txt'']"
    by code_simp
  have m1: "default_mappings ''rm'' = Some ''Remove-Item''"
    by code_simp
  have t2: "str_split (str_strip ''cp a b'') = ''cp'' # [''a'', ''b'']"
    by code_simp
  have m2: "default_mappings ''cp'' = Some ''Copy-Item''"
    by code_simp
  have r1: "convert_unix_to_powershell default_mappings ''rm myfile.txt''
       = Inr (PyTuple (''Remove-Item '' @ sq @ ''myfile.txt'' @ sq)
                      (''Performs rm operation on '' @ sq @ ''myfile.txt'' @ sq))"
    using t1 m1
      target_rule [where line = "''rm myfile.txt''" and base = "''rm''"
          and args = "[''myfile.txt'']" and command_mappings = default_mappings
          and ps_base = "''Remove-Item''"]
    by simp
  have r2: "convert_unix_to_powershell default_mappings ''cp a b''
       = Inr (PyTuple (''Copy-Item '' @ sq @ ''a b'' @ sq)
                      (''Performs cp operation on '' @ sq @ ''a b'' @ sq))"
    using t2 m2
      target_rule [where line = "''cp a b''" and base = "''cp''"
          and args = "[''a'', ''b'']" and command_mappings = default_mappings
          and ps_base = "''Copy-Item''"]
    by simp
  from t1 m1 r1 t2 m2 r2 show ?thesis by simp
qed

section \<open>Unmapped and blank commands\<close>

lemma tokens_imp_not_blank: "str_split s = base # args \<Longrightarrow> s \<noteq> []"
  by (auto simp: str_split_def)

text \<open>
  C4: for a line whose base token is not in the mapping table the conversion succeeds.
  The PowerShell command is the placeholder naming the base token, the explanation names
  it too, and the response of the endpoint has status \<open>success\<close>.
\<close>

theorem unmapped_soft_miss:
  assumes "str_split (str_strip (command request)) = base # args"
    and "command_mappings base = None"
  shows "convert_unix_to_powershell command_mappings (command request) =
           Inr (PyTuple
             (''# No direct mapping found for '' @ sq @ base @ sq)
             (''Command '' @ sq @ base @ sq
                @ '' doesn'' @ sq @ ''t have a direct PowerShell equivalent in our database''))
         \<and> convert_command command_mappings request =
           Inr \<lparr>unix_command = command request,
                powershell_command = ''# No direct mapping found for '' @ sq @ base @ sq,
                explanation =
                  (if include_explanation request = Some True then
                     Some (''Command '' @ sq @ base @ sq
                       @ '' doesn'' @ sq
                       @ ''t have a direct PowerShell equivalent in our database'')
                   else None),
                status = ''success''\<rparr>"
proof -
  have nb: "str_strip (command request) \<noteq> []"
    using assms(1) by (rule tokens_imp_not_blank)
  have r: "convert_unix_to_powershell command_mappings (command request) =
           Inr (PyTuple
             (''# No direct mapping found for '' @ sq @ base @ sq)
             (''Command '' @ sq @ base @ sq
                @ '' doesn'' @ sq @ ''t have a direct PowerShell equivalent in our database''))"
    using unmapped_branch [where line = "command request" and base = base and args = args
        and command_mappings = command_mappings] assms
    by (simp add: quoted_def)
  show ?thesis
    using nb by (simp add: r convert_command_def)
qed

theorem unmapped_soft_miss_witness:
  "str_split (str_strip ''zork somearg'') = ''zork'' # [''somearg'']
   \<and> default_mappings ''zork'' = None
   \<and> convert_command default_mappings
        \<lparr>command = ''zork somearg'', include_explanation = Some True\<rparr> =
      Inr \<lparr>unix_command = ''zork somearg'',
           powershell_command = ''# No direct mapping found for '' @ sq @ ''zork'' @ sq,
           explanation =
             Some (''Command '' @ sq @ ''zork'' @ sq
               @ '' doesn'' @ sq @ ''t have a direct PowerShell equivalent in our database''),
           status = ''success''\<rparr>"
proof -
  have t: "str_split (str_strip ''zork somearg'') = ''zork'' # [''somearg'']"
    by code_simp
  have m: "default_mappings ''zork'' = None"
    by code_simp
  show ?thesis
    using t m
      unmapped_soft_miss [where request = "\<lparr>command = ''zork somearg'',
          include_explanation = Some True\<rparr>" and base = "''zork''" and args = "[''somearg'']"
          and command_mappings = default_mappings]
    by simp
qed

text \<open>
  C5: a command that is empty or consists of whitespace only is refused with status 400,
  whatever the mapping table holds; no conversion result is produced.
\<close>

theorem blank_command_rejected:
  assumes "\<forall>c \<in> set (command request). isspace c"
  shows "convert_command command_mappings request =
           Inl \<lparr>status_code = 400, detail = ''Command cannot be empty''\<rparr>"
  using strip_blank [OF assms] by (simp add: convert_command_def)

theorem blank_command_rejected_witness:
  "isspace (CHR '' '') \<and> isspace (CHR 0x09)
   \<and> convert_command default_mappings
        \<lparr>command = [CHR '' '', CHR 0x09, CHR '' ''], include_explanation = None\<rparr>
      = Inl \<lparr>status_code = 400, detail = ''Command cannot be empty''\<rparr>
   \<and> convert_command default_mappings \<lparr>command = [], include_explanation = None\<rparr>
      = Inl \<lparr>status_code = 400, detail = ''Command cannot be empty''\<rparr>"
proof -
  have h: "isspace (CHR '' '')" "isspace (CHR 0x09)"
    by (simp_all add: isspace_def)
  show ?thesis
    using h
      blank_command_rejected [where request = "\<lparr>command = [CHR '' '', CHR 0x09, CHR '' ''],
          include_explanation = None\<rparr>" and command_mappings = default_mappings]
      blank_command_rejected [where request = "\<lparr>command = [], include_explanation = None\<rparr>"
          and command_mappings = default_mappings]
    by simp
qed

section \<open>The \<open>find\<close> rule with a pattern\<close>

lemma list_index_first:
  "i < length xs \<Longrightarrow> xs ! i = x \<Longrightarrow>
     \<exists>k\<le>i. list_index xs x = Some k \<and> xs ! k = x \<and> (\<forall>j<k. xs ! j \<noteq> x)"
proof (induction xs arbitrary: i)
  case Nil
  then show ?case by simp
next
  case (Cons y ys)
  show ?case
  proof (cases "y = x")
    case True
    then show ?thesis by simp
  next
    case False
    with Cons.prems obtain i' where i': "i = Suc i'"
      by (cases i) auto
    with Cons.prems have "i' < length ys" "ys ! i' = x"
      by simp_all
    from Cons.IH [OF this] obtain k where
      k: "k \<le> i'" "list_index ys x = Some k" "ys ! k = x" "\<forall>j<k. ys ! j \<noteq> x"
      by blast
    have "\<forall>j<Suc k. (y # ys) ! j \<noteq> x"
    proof (intro allI impI)
      fix j assume "j < Suc k"
      with k(4) False show "(y # ys) ! j \<noteq> x"
        by (cases j) auto
    qed
    with k i' False show ?thesis
      by (intro exI [of _ "Suc k"]) simp
  qed
qed

text \<open>
  C8: for \<open>find\<close>, when some token follows a \<open>-name\<close> among the arguments, the token
  after the first \<open>-name\<close> is the pattern, and the result is
  \<open>Get-ChildItem -Recurse -Name\<close> with the pattern, unchanged, between \<open>'*\<close> and \<open>*'\<close>.
\<close>

theorem find_name_rule:
  assumes "str_split (str_strip line) = ''find'' # args"
    and "command_mappings ''find'' = Some ps_base"
    and "i + 1 < length args"
    and "args ! i = ''-name''"
  shows "\<exists>k. k \<le> i \<and> args ! k = ''-name'' \<and> (\<forall>j<k. args ! j \<noteq> ''-name'')
           \<and> convert_unix_to_powershell command_mappings line =
               Inr (PyTuple
                 (''Get-ChildItem -Recurse -Name '' @ sq @ ''*'' @ args ! (k + 1) @ ''*'' @ sq)
                 (''Finds files matching pattern '' @ sq @ args ! (k + 1) @ sq))"
proof -
  from assms(3) have il: "i < length args"
    by simp
  from list_index_first [OF il assms(4)] obtain k where
    k: "k \<le> i" "list_index args ''-name'' = Some k" "args ! k = ''-name''"
       "\<forall>j<k. args ! j \<noteq> ''-name''"
    by blast
  from k(1) assms(3) have kl: "k + 1 < length args"
    by simp
  from il assms(4) have mem: "''-name'' \<in> set args"
    by (metis nth_mem)
  have "convert_unix_to_powershell command_mappings line =
          Inr (PyTuple
            (''Get-ChildItem -Recurse -Name '' @ sq @ ''*'' @ args ! (k + 1) @ ''*'' @ sq)
            (''Finds files matching pattern '' @ sq @ args ! (k + 1) @ sq))"
    using find_branch [where line = line and args = args
        and command_mappings = command_mappings and ps_base = ps_base]
      assms(1,2) il mem k(2) kl
    by (simp add: quoted_def)
  with k(1,3,4) show ?thesis
    by blast
qed

theorem find_name_rule_witness:
  "str_split (str_strip ''find -name *.txt'') = ''find'' # [''-name'', ''*.txt'']
   \<and> default_mappings ''find'' = Some ''Get-ChildItem -Recurse''
   \<and> 0 + 1 < length [''-name'', ''*.txt'']
   \<and> [''-name'', ''*.txt''] ! 0 = ''-name''
   \<and> convert_unix_to_powershell default_mappings ''find -name *.txt'' =
       Inr (PyTuple
         (''Get-ChildItem -Recurse -Name '' @ sq @ ''**.txt*'' @ sq)
         (''Finds files matching pattern '' @ sq @ ''*.txt'' @ sq))"
proof -
  have t: "str_split (str_strip ''find -name *.txt'') = ''find'' # [''-name'', ''*.txt'']"
    by code_simp
  have m: "default_mappings ''find'' = Some ''Get-ChildItem -Recurse''"
    by code_simp
  show ?thesis
    using t m
      find_name_rule [where line = "''find -name *.txt''" and args = "[''-name'', ''*.txt'']"
          and command_mappings = default_mappings and ps_base = "''Get-ChildItem -Recurse''"
          and i = 0]
    by simp
qed

section \<open>The placeholder prefix\<close>

lemma blank_mapped_branch:
  assumes "str_split (str_strip line) = []"
    and "command_mappings [] = Some ps_base"
  shows "convert_unix_to_powershell command_mappings line =
     Inr (PyTuple ps_base (''PowerShell equivalent of '' @ []))"
  using assms
  by (simp add: convert_unix_to_powershell_def Let_def)

lemma startswith_hash: "startswith s ''#'' \<longleftrightarrow> (\<exists>r. s = CHR ''#'' # r)"
  by (cases s) (auto simp: startswith_def)

lemma startswith_first: "startswith s (c # p) \<Longrightarrow> startswith s [c]"
  by (cases s) (auto simp: startswith_def)

lemma template_prefix_no_hash:
  "\<not> startswith t ''#'' \<Longrightarrow> \<not> startswith (t @ '' '' @ x) ''#''"
  by (cases t) (auto simp: startswith_hash)

lemma mapped_no_hash:
  assumes tok: "str_split (str_strip line) = base # args"
    and m: "command_mappings base = Some ps_base"
    and nh: "\<not> startswith ps_base ''#''"
    and r: "convert_unix_to_powershell command_mappings line = Inr (PyTuple ps expl)"
  shows "\<not> startswith ps ''#''"
proof -
  consider "base = ''ls''" | "base = ''grep''" | "base = ''find''" | "base = ''head''"
    | "base = ''tail''" | "base = ''kill''"
    | "base \<in> set [''cd'', ''mkdir'', ''rmdir'', ''rm'', ''cp'', ''mv'', ''cat'']"
    | "base \<notin> set [''ls'', ''grep'', ''find'', ''head'', ''tail'', ''kill'']"
      "base \<notin> set [''cd'', ''mkdir'', ''rmdir'', ''rm'', ''cp'', ''mv'', ''cat'']"
    by auto
  then show ?thesis
  proof cases
    case 1
    with tok m have "convert_unix_to_powershell command_mappings line =
       (if ''-la'' \<in> set args \<or> ''-l'' \<in> set args then
          Inr (PyTuple ''Get-ChildItem | Format-List'' ''Lists files with detailed information'')
        else if ''-a'' \<in> set args then
          Inr (PyTuple ''Get-ChildItem -Force'' ''Lists all files including hidden ones'')
        else Inr (PyTuple ps_base ''Lists files and directories''))"
      by (simp add: ls_branch)
    with r nh show ?thesis
      by (auto simp: startswith_hash split: if_splits)
  next
    case 2
    with tok m r have "ps = ps_base \<or> (\<exists>x. ps = ''Select-String -Pattern '' @ x)"
      by (auto simp: grep_branch split: if_splits)
    with nh show ?thesis
      by (auto simp: startswith_hash)
  next
    case 3
    with tok m r have "ps = ps_base \<or> (\<exists>x. ps = ''Get-ChildItem -Recurse -Name '' @ x)
        \<or> (\<exists>x. ps = ''Get-ChildItem -Path '' @ x)"
      by (auto simp: find_branch split: if_splits option.splits)
    with nh show ?thesis
      by (auto simp: startswith_hash)
  next
    case 4
    with tok m r have "(\<exists>x. ps = ''Get-Content '' @ x) \<or> (\<exists>x. ps = ''Select-Object -First '' @ x)
        \<or> ps = ''Get-Content | Select-Object -First 10''"
      by (auto simp: head_branch split: if_splits)
    then show ?thesis
      by (auto simp: startswith_hash)
  next
    case 5
    with tok m r have "(\<exists>x. ps = ''Get-Content '' @ x) \<or> (\<exists>x. ps = ''Select-Object -Last '' @ x)
        \<or> ps = ''Get-Content | Select-Object -Last 10''"
      by (auto simp: tail_branch split: if_splits)
    then show ?thesis
      by (auto simp: startswith_hash)
  next
    case 6
    with tok m r have "ps = ps_base \<or> (\<exists>x. ps = ''Stop-Process -Id '' @ x)"
      by (auto simp: kill_branch split: if_splits)
    with nh show ?thesis
      by (auto simp: startswith_hash)
  next
    case 7
    from target_branch [where command_mappings = command_mappings, OF tok this m] r
    have "ps = ps_base \<or> (\<exists>x. ps = ps_base @ '' '' @ x)"
      by (auto split: if_splits)
    with nh show ?thesis
      using template_prefix_no_hash by blast
  next
    case 8
    from default_branch [where command_mappings = command_mappings, OF tok this m] r
    have "ps = ps_base \<or> (\<exists>x. ps = ps_base @ '' '' @ x)"
      by (auto split: if_splits)
    with nh show ?thesis
      using template_prefix_no_hash by blast
  qed
qed

lemma placeholder_has_prefix:
  "startswith (''# No direct mapping found for '' @ x) ''# No direct mapping found for''"
  by (simp add: startswith_def)

text \<open>
  C9, as the code has it: when no template of the mapping table begins with \<open>#\<close> (the
  built-in table is such a table), a result begins with the placeholder prefix exactly
  when the base command of the line is not in the table.
\<close>

theorem placeholder_prefix_iff_unmapped:
  assumes "\<forall>t \<in> ran command_mappings. \<not> startswith t ''#''"
    and "convert_unix_to_powershell command_mappings line = Inr (PyTuple ps expl)"
  shows "startswith ps ''# No direct mapping found for''
           \<longleftrightarrow> command_mappings (base_command_of line) = None"
proof (cases "str_split (str_strip line)")
  case Nil
  then have b: "base_command_of line = []"
    by (simp add: base_command_of_def)
  show ?thesis
  proof (cases "command_mappings []")
    case None
    from blank_branch [where command_mappings = command_mappings, OF Nil None] assms(2)
    have ps: "ps = ''# No direct mapping found for '' @ quoted []"
      by simp
    have "startswith ps ''# No direct mapping found for''"
      unfolding ps by (rule placeholder_has_prefix)
    with None b show ?thesis
      by simp
  next
    case (Some t)
    from blank_mapped_branch [where command_mappings = command_mappings, OF Nil Some] assms(2) have "ps = t"
      by simp
    moreover from Some assms(1) have "\<not> startswith t ''#''"
      by (auto simp: ran_def)
    ultimately have "\<not> startswith ps ''# No direct mapping found for''"
      using startswith_first by blast
    with Some b show ?thesis
      by simp
  qed
next
  case (Cons base args)
  then have b: "base_command_of line = base"
    by (simp add: base_command_of_def)
  show ?thesis
  proof (cases "command_mappings base")
    case None
    from unmapped_branch [where command_mappings = command_mappings, OF Cons None] assms(2)
    have ps: "ps = ''# No direct mapping found for '' @ quoted base"
      by simp
    have "startswith ps ''# No direct mapping found for''"
      unfolding ps by (rule placeholder_has_prefix)
    with None b show ?thesis
      by simp
  next
    case (Some t)
    from Some assms(1) have "\<not> startswith t ''#''"
      by (auto simp: ran_def)
    from mapped_no_hash [where command_mappings = command_mappings, OF Cons Some this assms(2)]
    have "\<not> startswith ps ''# No direct mapping found for''"
      using startswith_first by blast
    with Some b show ?thesis
      by simp
  qed
qed

lemma fallback_no_hash: "\<forall>t \<in> ran default_mappings. \<not> startswith t ''#''"
proof -
  have "ran default_mappings = snd ` set fallback_mappings"
    unfolding default_mappings_def
    by (rule ran_distinct) (simp add: fallback_mappings_def)
  then show ?thesis
    by (simp add: fallback_mappings_def startswith_def)
qed

theorem placeholder_prefix_iff_unmapped_witness:
  "convert_unix_to_powershell default_mappings ''zork somearg''
       = Inr (PyTuple (''# No direct mapping found for '' @ sq @ ''zork'' @ sq)
           (''Command '' @ sq @ ''zork'' @ sq
              @ '' doesn'' @ sq @ ''t have a direct PowerShell equivalent in our database''))
   \<and> startswith (''# No direct mapping found for '' @ sq @ ''zork'' @ sq)
         ''# No direct mapping found for''
   \<and> default_mappings (base_command_of ''zork somearg'') = None
   \<and> convert_unix_to_powershell default_mappings ''ls -a''
       = Inr (PyTuple ''Get-ChildItem -Force'' ''Lists all files including hidden ones'')
   \<and> \<not> startswith ''Get-ChildItem -Force'' ''# No direct mapping found for''
   \<and> default_mappings (base_command_of ''ls -a'') = Some ''Get-ChildItem''"
proof -
  have r1: "convert_unix_to_powershell default_mappings ''zork somearg''
       = Inr (PyTuple (''# No direct mapping found for '' @ sq @ ''zork'' @ sq)
           (''Command '' @ sq @ ''zork'' @ sq
              @ '' doesn'' @ sq @ ''t have a direct PowerShell equivalent in our database''))"
    by code_simp
  have b1: "default_mappings (base_command_of ''zork somearg'') = None"
    by code_simp
  have r2: "convert_unix_to_powershell default_mappings ''ls -a''
       = Inr (PyTuple ''Get-ChildItem -Force'' ''Lists all files including hidden ones'')"
    by code_simp
  have b2: "default_mappings (base_command_of ''ls -a'') = Some ''Get-ChildItem''"
    by code_simp
  from placeholder_prefix_iff_unmapped
         [where command_mappings = default_mappings, OF fallback_no_hash r1] b1
  have p1: "startswith (''# No direct mapping found for '' @ sq @ ''zork'' @ sq)
         ''# No direct mapping found for''"
    by simp
  from placeholder_prefix_iff_unmapped
         [where command_mappings = default_mappings, OF fallback_no_hash r2] b2
  have p2: "\<not> startswith ''Get-ChildItem -Force'' ''# No direct mapping found for''"
    by simp
  from r1 p1 b1 r2 p2 b2 show ?thesis
    by blast
qed

text \<open>
  C9 as stated fails for a table read from the mapping source in which a template itself
  begins with the placeholder prefix: the default rule returns the template, so the result
  has the prefix although the base command is in the table.
\<close>

theorem placeholder_prefix_from_template:
  "convert_unix_to_powershell (map_of [(''zork'', ''# No direct mapping found for it'')]) ''zork''
     = Inr (PyTuple ''# No direct mapping found for it'' ''PowerShell equivalent of zork'')
   \<and> startswith ''# No direct mapping found for it'' ''# No direct mapping found for''
   \<and> map_of [(''zork'', ''# No direct mapping found for it'')] (base_command_of ''zork'')
       = Some ''# No direct mapping found for it''"
  by code_simp

end
